theory Spec2Isabelle
  imports Main "HOL-Library.Word"
begin

section \<open>Package cmd\_runner: Go values\<close>

text \<open>
  The package (file \<open>src/unnamed/part_001\<close>) has one type,
  \<open>CapturingPassThroughWriter\<close>, and one function, \<open>CmdRun\<close>. Everything else it
  touches belongs to the Go standard library and to the operating system; those parts
  are modelled by what they answer.

  A Go \<open>error\<close> is a value or \<open>nil\<close>: here \<open>error option\<close>, with \<open>None\<close> for
  \<open>nil\<close>. \<open>Errorf f args\<close> is the value \<open>fmt.Errorf(f, args...)\<close> builds; the
  format string is kept unexpanded beside its arguments.
\<close>

type_synonym byte = "8 word"

datatype error =
    OSError string
  | Errorf string "error list"
  | ErrShortWrite
  | ErrInvalidWrite

text \<open>Go's \<open>x != nil\<close> on an error.\<close>

fun notnil :: "error option \<Rightarrow> bool" where
  "notnil None = False"
| "notnil (Some e) = True"

text \<open>
  An \<open>io.Writer\<close> is any object with a \<open>Write\<close> method. The model keeps the
  argument of every call, oldest first, in \<open>received\<close>; what a call returns (the
  count and the error) is the writer's own business and may depend on all it has seen:
  \<open>answer\<close>.
\<close>

record io_Writer =
  received :: "byte list list"
  answer :: "byte list list \<Rightarrow> byte list \<Rightarrow> int \<times> error option"

definition io_Write :: "byte list \<Rightarrow> io_Writer \<Rightarrow> (int \<times> error option) \<times> io_Writer" where
  "io_Write d dst = (answer dst (received dst) d, dst\<lparr>received := received dst @ [d]\<rparr>)"

section \<open>CapturingPassThroughWriter\<close>

text \<open>
  \<^verbatim>\<open>
  type CapturingPassThroughWriter struct {
      buf bytes.Buffer
      w   io.Writer
  }
  \<close>
  \<open>bytes.Buffer\<close> is the sequence of bytes written to it so far.
\<close>

record CapturingPassThroughWriter =
  buf :: "byte list"
  w :: io_Writer

definition NewCapturingPassThroughWriter :: "io_Writer \<Rightarrow> CapturingPassThroughWriter" where
  "NewCapturingPassThroughWriter dst = \<lparr>buf = [], w = dst\<rparr>"

text \<open>\<open>w.buf.Write(d)\<close>: \<open>bytes.Buffer.Write\<close> appends \<open>d\<close>; its results are dropped.\<close>

definition buf_Write :: "byte list \<Rightarrow> CapturingPassThroughWriter \<Rightarrow> CapturingPassThroughWriter" where
  "buf_Write d c = c\<lparr>buf := buf c @ d\<rparr>"

text \<open>\<open>return w.w.Write(d)\<close>: the destination's answer is the answer of \<open>Write\<close>.\<close>

definition w_Write ::
  "byte list \<Rightarrow> CapturingPassThroughWriter \<Rightarrow> (int \<times> error option) \<times> CapturingPassThroughWriter" where
  "w_Write d c = (case io_Write d (w c) of (r, dst) \<Rightarrow> (r, c\<lparr>w := dst\<rparr>))"

text \<open>
  \<^verbatim>\<open>
  func (w *CapturingPassThroughWriter) Write(d []byte) (int, error) {
      w.buf.Write(d)
      return w.w.Write(d)
  }
  \<close>
\<close>

definition Write ::
  "byte list \<Rightarrow> CapturingPassThroughWriter \<Rightarrow> (int \<times> error option) \<times> CapturingPassThroughWriter" where
  "Write d c = w_Write d (buf_Write d c)"

definition Bytes :: "CapturingPassThroughWriter \<Rightarrow> byte list" where
  "Bytes c = buf c"

text \<open>A finite sequence of \<open>Write\<close> calls, in call order; the results of the calls are dropped.\<close>

fun Writes :: "byte list list \<Rightarrow> CapturingPassThroughWriter \<Rightarrow> CapturingPassThroughWriter" where
  "Writes [] c = c"
| "Writes (d # ds) c = Writes ds (snd (Write d c))"

section \<open>The standard library and the operating system, as \<open>CmdRun\<close> meets them\<close>

text \<open>
  Time is a number of nanoseconds (the unit of \<open>time.Duration\<close>), counted from the
  moment \<open>cmd.Start\<close> returns.

  The read end of a pipe: its successive \<open>Read\<close> calls return, in order, the data
  \<open>d\<close> at time \<open>t\<close> for each \<open>(t, d)\<close> of \<open>reads\<close>, and then at \<open>closed_at\<close>
  either \<open>io.EOF\<close> (\<open>closed_with = None\<close>) or a read error.
\<close>

record Reader =
  reads :: "(nat \<times> byte list) list"
  closed_at :: nat
  closed_with :: "error option"

text \<open>
  What one \<open>io.Copy(dst, src)\<close> call did: the count and the error it returns, the time
  at which it returns, and the destination as it leaves it.
\<close>

record Copied =
  cp_written :: int
  cp_err :: "error option"
  cp_at :: nat
  cp_dst :: CapturingPassThroughWriter

text \<open>
  The loop of \<open>io.Copy\<close> (Go's \<open>io.copyBuffer\<close>), which blocks in \<open>src.Read\<close>
  until the reader has something to return:
  \<^verbatim>\<open>
  for {
      nr, er := src.Read(buf)
      if nr > 0 {
          nw, ew := dst.Write(buf[0:nr])
          if nw < 0 || nr < nw {
              nw = 0
              if ew == nil { ew = errInvalidWrite }
          }
          written += int64(nw)
          if ew != nil { err = ew; break }
          if nr != nw { err = ErrShortWrite; break }
      }
      if er != nil {
          if er != EOF { err = er }
          break
      }
  }
  return written, err
  \<close>
\<close>

fun copyBuffer ::
  "CapturingPassThroughWriter \<Rightarrow> (nat \<times> byte list) list \<Rightarrow> nat \<times> error option \<Rightarrow> nat \<Rightarrow> int \<Rightarrow> Copied" where
  "copyBuffer dst [] (t, er) now written =
     \<lparr>cp_written = written, cp_err = er, cp_at = max now t, cp_dst = dst\<rparr>"
| "copyBuffer dst ((t, d) # rest) fin now written =
     (let nr = int (length d) in
      if nr > 0 then
        (case Write d dst of
           ((nw0, ew0), dst') \<Rightarrow>
             (let nw = (if nw0 < 0 \<or> nr < nw0 then 0 else nw0);
                  ew = (if nw0 < 0 \<or> nr < nw0
                        then (if notnil ew0 then ew0 else Some ErrInvalidWrite) else ew0)
              in if notnil ew
                 then \<lparr>cp_written = written + nw, cp_err = ew, cp_at = max now t, cp_dst = dst'\<rparr>
                 else if nr \<noteq> nw
                 then \<lparr>cp_written = written + nw, cp_err = Some ErrShortWrite,
                        cp_at = max now t, cp_dst = dst'\<rparr>
                 else copyBuffer dst' rest fin (max now t) (written + nw)))
      else copyBuffer dst rest fin (max now t) written)"

text \<open>
  \<open>io.Copy(dst, src)\<close> called at time \<open>now\<close>. A \<open>nil\<close> reader makes the first
  \<open>src.Read\<close> a nil dereference: the call panics (\<open>None\<close>).
\<close>

definition io_Copy :: "CapturingPassThroughWriter \<Rightarrow> Reader option \<Rightarrow> nat \<Rightarrow> Copied option" where
  "io_Copy dst src now =
     (case src of
        None \<Rightarrow> None
      | Some r \<Rightarrow> Some (copyBuffer dst (reads r) (closed_at r, closed_with r) now 0))"

text \<open>\<open>strings.TrimRight(s, cutset)\<close>: \<open>s\<close> without its trailing characters of \<open>cutset\<close>.\<close>

definition TrimRight :: "string \<Rightarrow> string \<Rightarrow> string" where
  "TrimRight s cutset = rev (dropWhile (\<lambda>c. c \<in> set cutset) (rev s))"

text \<open>
  The \<open>exec.Cmd\<close> that \<open>cmd.Start\<close> is called on: the name given to
  \<open>exec.Command\<close> (\<open>Path\<close>, \<open>Args\<close>), \<open>cmd.Env\<close>, the \<open>Setpgid\<close> flag of
  \<open>cmd.SysProcAttr\<close>, and whether \<open>StdoutPipe\<close> and \<open>StderrPipe\<close> attached a pipe.
  Resolving a bare name through \<open>PATH\<close> is part of what \<open>Start\<close> answers.
\<close>

record Cmd =
  Path :: string
  Args :: "string list"
  Env :: "string list"
  Setpgid :: bool
  Stdout_piped :: bool
  Stderr_piped :: bool

text \<open>
  A started child: its process id, what the read ends of its two pipes deliver, when
  it exits, and what \<open>cmd.Wait\<close> returns for it (\<open>None\<close> for exit status 0).
\<close>

record Process =
  Pid :: int
  stdout_pipe :: Reader
  stderr_pipe :: Reader
  exits_at :: nat
  Wait :: "error option"

text \<open>
  One invocation's surroundings: the answers of \<open>os.Environ\<close>, \<open>cmd.StdoutPipe\<close>,
  \<open>cmd.StderrPipe\<close> (the error each returns), \<open>cmd.Start\<close>, \<open>syscall.Getpgid\<close>
  and \<open>syscall.Kill\<close>; the writers \<open>os.Stdout\<close> and \<open>os.Stderr\<close>; and which case
  the runtime picks when both channels of the \<open>select\<close> are ready at once.
\<close>

record World =
  Environ :: "string list"
  StdoutPipe :: "error option"
  StderrPipe :: "error option"
  Start :: "Cmd \<Rightarrow> error + Process"
  Getpgid :: "int \<Rightarrow> error + int"
  Kill :: "int \<Rightarrow> int \<Rightarrow> error option"
  os_Stdout :: io_Writer
  os_Stderr :: io_Writer
  timer_first :: bool

section \<open>CmdRun\<close>

text \<open>
  What the main goroutine does, in program order. \<open>Call_Printf\<close> keeps the format
  string and the arguments of a \<open>fmt.Printf\<close> call. \<open>Go_Copy_Wait b\<close> is the
  \<open>go\<close> statement of line 64 (\<open>b\<close>: \<open>stdoutIn\<close> is not nil); \<open>Call_Copy b\<close> and
  \<open>Ret_Copy t\<close> are the call of \<open>io.Copy(stderr, stderrIn)\<close> on line 69 (\<open>b\<close>:
  \<open>stderrIn\<close> is not nil) and its return at time \<open>t\<close>; \<open>Select t\<close> is the main
  goroutine reaching the \<open>select\<close> at time \<open>t\<close>; \<open>Recv_After t\<close> and
  \<open>Recv_done t e\<close> are the case it takes and when.
\<close>

datatype arg = String_arg string | Int_arg int

datatype event =
    Call_StdoutPipe
  | Call_StderrPipe
  | Call_Start Cmd
  | Call_Printf string "arg list"
  | Go_Copy_Wait bool
  | Call_Copy bool
  | Ret_Copy nat
  | Select nat
  | Recv_After nat
  | Recv_done nat "error option"
  | Call_Getpgid int
  | Call_Kill int int

text \<open>\<open>CmdRun\<close> returns an \<open>error\<close>, or the program dies in a panic.\<close>

datatype result = Returned "error option" | Panicked

text \<open>
  One run of \<open>CmdRun\<close>. \<open>ret\<close> is all the caller gets. The other fields observe the
  run: the main goroutine's \<open>trace\<close>, the time of the return, and the two drains
  (\<open>stdout_drain\<close> is the goroutine's copy, \<open>stderr_drain\<close> the main goroutine's;
  the goroutine's has finished by the time \<open>CmdRun\<close> returns exactly when its
  \<open>cp_at\<close> is not later than \<open>returned_at\<close>).
\<close>

record Run =
  ret :: result
  trace :: "event list"
  returned_at :: nat
  stdout_drain :: "Copied option"
  stderr_drain :: "Copied option"

text \<open>Lines 43 to 45.\<close>

definition default_timeout :: "int \<Rightarrow> int" where
  "default_timeout timeout = (if timeout \<le> 0 then 3 else timeout)"

text \<open>
  Lines 46 to 54: the command as \<open>cmd.Start\<close> finds it. \<open>StdoutPipe\<close> and
  \<open>StderrPipe\<close> attach a pipe unless they fail.
\<close>

definition Command :: "World \<Rightarrow> string \<Rightarrow> Cmd" where
  "Command os scriptPath =
     \<lparr>Path = TrimRight scriptPath ''\<newline>'',
      Args = [TrimRight scriptPath ''\<newline>''],
      Env = Environ os,
      Setpgid = True,
      Stdout_piped = (StdoutPipe os = None),
      Stderr_piped = (StderrPipe os = None)\<rparr>"

text \<open>
  \<open>stdoutIn, _ := cmd.StdoutPipe()\<close>: the error is dropped, and the reader is
  \<open>nil\<close> when the call failed.
\<close>

definition pipe_end :: "error option \<Rightarrow> Reader \<Rightarrow> Reader option" where
  "pipe_end failure r = (case failure of None \<Rightarrow> Some r | Some e \<Rightarrow> None)"

text \<open>
  \<open>time.After(time.Duration(timeout) * time.Second)\<close> evaluated at time \<open>now\<close>: when
  the timer's channel becomes ready. The product is an \<open>int64\<close> and wraps; a duration
  that is not positive fires at once.
\<close>

definition Second :: "64 word" where
  "Second = 1000000000"

definition After :: "nat \<Rightarrow> int \<Rightarrow> nat" where
  "After now timeout = now + nat (sint ((word_of_int timeout :: 64 word) * Second))"

text \<open>
  The goroutine of lines 64 to 67 sends on \<open>done\<close> when its copy has returned and
  \<open>cmd.Wait\<close> after it, that is when the process has exited.
\<close>

definition done_at :: "Copied \<Rightarrow> Process \<Rightarrow> nat" where
  "done_at g p = max (cp_at g) (exits_at p)"

text \<open>
  The \<open>select\<close> of line 71, entered at \<open>sel\<close>: the channel that is ready first
  wins (\<open>done\<close> is ready at \<open>sel\<close> when it was sent to earlier); when both are ready
  at the same time the runtime chooses.
\<close>

definition timer_wins :: "World \<Rightarrow> nat \<Rightarrow> nat \<Rightarrow> nat \<Rightarrow> bool" where
  "timer_wins os sel fire dn = (fire < max sel dn \<or> (fire = max sel dn \<and> timer_first os))"

text \<open>Lines 90 to 95.\<close>

definition finish :: "event list \<Rightarrow> error option \<Rightarrow> error option \<Rightarrow> result \<times> event list" where
  "finish tr errStdout errStderr =
     (if notnil errStdout \<or> notnil errStderr
      then (Returned (Some (Errorf ''failed to capture stdout or stderr'' [])), tr)
      else (Returned None,
            tr @ [Call_Printf ''Execution of the script finished successfully\<newline>'' []]))"

text \<open>
  Lines 71 to 95, with \<open>g\<close> the goroutine's copy and \<open>m\<close> the main goroutine's.
  In the timer's case the main goroutine reads \<open>errStdout\<close> while the goroutine may
  still be copying: it sees the goroutine's error only when that copy has returned.
\<close>

definition select_race ::
  "World \<Rightarrow> int \<Rightarrow> Process \<Rightarrow> Copied \<Rightarrow> Copied \<Rightarrow> event list \<Rightarrow> result \<times> event list \<times> nat" where
  "select_race os timeout p g m tr0 =
     (let sel = cp_at m;
          fire = After sel timeout;
          dn = max sel (done_at g p)
      in if timer_wins os sel fire (done_at g p)
         then
           (let errStdout = (if cp_at g \<le> fire then cp_err g else None);
                tr1 = tr0 @ [Select sel, Recv_After fire, Call_Getpgid (Pid p)]
            in case Getpgid os (Pid p) of
                 Inl e \<Rightarrow> (Returned (Some e), tr1, fire)
               | Inr pgid \<Rightarrow>
                   (let tr2 = tr1 @ [Call_Kill (- pgid) 15]
                    in case Kill os (- pgid) 15 of
                         Some e \<Rightarrow> (Returned (Some e), tr2, fire)
                       | None \<Rightarrow>
                           (case finish
                                   (tr2 @ [Call_Printf ''Process killed as timeout(%d) reached\<newline>''
                                             [Int_arg timeout]])
                                   errStdout (cp_err m) of
                              (r, tr3) \<Rightarrow> (r, tr3, fire))))
         else
           (let tr1 = tr0 @ [Select sel, Recv_done dn (Wait p)]
            in case Wait p of
                 Some e \<Rightarrow>
                   (Returned (Some (Errorf ''process finished with error = %v'' [e])), tr1, dn)
               | None \<Rightarrow>
                   (case finish tr1 (cp_err g) (cp_err m) of
                      (r, tr2) \<Rightarrow> (r, tr2, dn))))"

text \<open>Lines 61 to 95: the process \<open>p\<close> has been started.\<close>

definition supervise :: "World \<Rightarrow> string \<Rightarrow> int \<Rightarrow> Process \<Rightarrow> event list \<Rightarrow> Run" where
  "supervise os scriptPath timeout p tr0 =
     (let stdoutIn = pipe_end (StdoutPipe os) (stdout_pipe p);
          stderrIn = pipe_end (StderrPipe os) (stderr_pipe p);
          stdout = NewCapturingPassThroughWriter (os_Stdout os);
          stderr = NewCapturingPassThroughWriter (os_Stderr os);
          tr1 = tr0 @
            [Call_Printf
               ''\<newline>Starting the exection of the script: \<newline>%s with timeout: %ds\<newline>''
               [String_arg scriptPath, Int_arg timeout],
             Go_Copy_Wait (stdoutIn \<noteq> None),
             Call_Copy (stderrIn \<noteq> None)]
      in case (io_Copy stdout stdoutIn 0, io_Copy stderr stderrIn 0) of
           (Some g, Some m) \<Rightarrow>
             (case select_race os timeout p g m (tr1 @ [Ret_Copy (cp_at m)]) of
                (r, tr2, t) \<Rightarrow>
                  \<lparr>ret = r, trace = tr2, returned_at = t,
                   stdout_drain = Some g, stderr_drain = Some m\<rparr>)
         | _ \<Rightarrow>
             \<lparr>ret = Panicked, trace = tr1, returned_at = 0,
              stdout_drain = None, stderr_drain = None\<rparr>)"

text \<open>
  \<^verbatim>\<open>func CmdRun(scriptPath string, timeout int) error\<close>, run in the surroundings
  \<open>os\<close>.
\<close>

definition CmdRun :: "World \<Rightarrow> string \<Rightarrow> int \<Rightarrow> Run" where
  "CmdRun os scriptPath timeout0 =
     (let timeout = default_timeout timeout0;
          cmd = Command os scriptPath;
          tr0 = [Call_StdoutPipe, Call_StderrPipe, Call_Start cmd]
      in case Start os cmd of
           Inl e \<Rightarrow>
             \<lparr>ret = Returned (Some e), trace = tr0, returned_at = 0,
              stdout_drain = None, stderr_drain = None\<rparr>
         | Inr p \<Rightarrow> supervise os scriptPath timeout p tr0)"

section \<open>Reading a run\<close>

fun is_Recv_After :: "event \<Rightarrow> bool" where
  "is_Recv_After (Recv_After t) = True"
| "is_Recv_After ev = False"

fun is_Recv_done :: "event \<Rightarrow> bool" where
  "is_Recv_done (Recv_done t e) = True"
| "is_Recv_done ev = False"

fun is_Call_Kill :: "event \<Rightarrow> bool" where
  "is_Call_Kill (Call_Kill pid sig) = True"
| "is_Call_Kill ev = False"

text \<open>The run took the timer's case of the \<open>select\<close>: the deadline fired first.\<close>

definition deadline_fired :: "Run \<Rightarrow> bool" where
  "deadline_fired r = list_ex is_Recv_After (trace r)"

text \<open>The run took the \<open>done\<close> case: the exit was reported first.\<close>

definition exit_received :: "Run \<Rightarrow> bool" where
  "exit_received r = list_ex is_Recv_done (trace r)"

text \<open>The \<open>syscall.Kill\<close> calls of a run, in order.\<close>

definition kills :: "Run \<Rightarrow> event list" where
  "kills r = filter is_Call_Kill (trace r)"

text \<open>The bytes a drain has captured, when there was one.\<close>

definition captured :: "Copied option \<Rightarrow> byte list option" where
  "captured c = map_option (\<lambda>x. Bytes (cp_dst x)) c"

section \<open>Some surroundings\<close>

text \<open>A destination that takes every write whole, and one that refuses every write.\<close>

definition console :: io_Writer where
  "console = \<lparr>received = [], answer = (\<lambda>seen d. (int (length d), None))\<rparr>"

definition broken_console :: io_Writer where
  "broken_console = \<lparr>received = [], answer = (\<lambda>seen d. (0, Some (OSError ''broken pipe'')))\<rparr>"

definition second :: nat where
  "second = 1000000000"

text \<open>A script that prints on its standard output and exits with status 0 within a millisecond.\<close>

definition hello :: Process where
  "hello =
     \<lparr>Pid = 4242,
      stdout_pipe = \<lparr>reads = [(500000, [104, 101, 108, 108, 111, 10])], closed_at = 1000000,
                     closed_with = None\<rparr>,
      stderr_pipe = \<lparr>reads = [], closed_at = 1000000, closed_with = None\<rparr>,
      exits_at = 1000000,
      Wait = None\<rparr>"

text \<open>A script that sleeps for ten seconds, both pipes open until it exits with status 0.\<close>

definition sleeper :: Process where
  "sleeper =
     \<lparr>Pid = 4242,
      stdout_pipe = \<lparr>reads = [], closed_at = 10 * second, closed_with = None\<rparr>,
      stderr_pipe = \<lparr>reads = [], closed_at = 10 * second, closed_with = None\<rparr>,
      exits_at = 10 * second,
      Wait = None\<rparr>"

text \<open>The same script after it has closed its standard error at once.\<close>

definition sleeper_no_stderr :: Process where
  "sleeper_no_stderr = sleeper\<lparr>stderr_pipe := \<lparr>reads = [], closed_at = 0, closed_with = None\<rparr>\<rparr>"

text \<open>Two scripts that exit with status 1 after printing different bytes.\<close>

definition failing :: "byte list \<Rightarrow> Process" where
  "failing out =
     \<lparr>Pid = 4242,
      stdout_pipe = \<lparr>reads = [(500000, out)], closed_at = 1000000, closed_with = None\<rparr>,
      stderr_pipe = \<lparr>reads = [], closed_at = 1000000, closed_with = None\<rparr>,
      exits_at = 1000000,
      Wait = Some (OSError ''exit status 1'')\<rparr>"

text \<open>
  A script that starts a child of its own, which keeps the standard output open for ten
  seconds, and exits with status 1 at once; the standard error is closed at once.
\<close>

definition failing_with_grandchild :: Process where
  "failing_with_grandchild =
     \<lparr>Pid = 4242,
      stdout_pipe = \<lparr>reads = [], closed_at = 10 * second, closed_with = None\<rparr>,
      stderr_pipe = \<lparr>reads = [], closed_at = 0, closed_with = None\<rparr>,
      exits_at = 0,
      Wait = Some (OSError ''exit status 1'')\<rparr>"

text \<open>
  Surroundings in which \<open>/opt/run.sh\<close> starts the process \<open>p\<close> and every other path
  fails to start, both pipes are created, the child leads its own group, and the group
  takes the signal.
\<close>

definition world_of :: "Process \<Rightarrow> World" where
  "world_of p =
     \<lparr>Environ = [''PATH=/usr/bin''],
      StdoutPipe = None,
      StderrPipe = None,
      Start = (\<lambda>c. if Path c = ''/opt/run.sh'' then Inr p
                    else Inl (OSError ''fork/exec: no such file or directory'')),
      Getpgid = (\<lambda>pid. if pid = Pid p then Inr pid else Inl (OSError ''no such process'')),
      Kill = (\<lambda>pid sig. if pid = - Pid p then None else Some (OSError ''no such process'')),
      os_Stdout = console,
      os_Stderr = console,
      timer_first = False\<rparr>"

text \<open>The same, but the process is gone when its group is looked up.\<close>

definition world_reaped :: "Process \<Rightarrow> World" where
  "world_reaped p = (world_of p)\<lparr>Getpgid := (\<lambda>pid. Inl (OSError ''no such process''))\<rparr>"

text \<open>The same as \<open>world_of\<close>, but neither pipe can be created.\<close>

definition world_no_pipes :: "Process \<Rightarrow> World" where
  "world_no_pipes p =
     (world_of p)\<lparr>StdoutPipe := Some (OSError ''too many open files''),
                  StderrPipe := Some (OSError ''too many open files'')\<rparr>"

text \<open>The same as \<open>world_of\<close>, but the signal is refused.\<close>

definition world_unkillable :: "Process \<Rightarrow> World" where
  "world_unkillable p =
     (world_of p)\<lparr>Kill := (\<lambda>pid sig. Some (OSError ''operation not permitted''))\<rparr>"

section \<open>The writer: lemmas\<close>

lemma buf_Write_fields [simp]:
  "buf (buf_Write d c) = buf c @ d" "w (buf_Write d c) = w c"
  by (simp_all add: buf_Write_def)

lemma Write_buf [simp]: "buf (snd (Write d c)) = buf c @ d"
  by (simp add: Write_def w_Write_def io_Write_def)

lemma Write_received [simp]: "received (w (snd (Write d c))) = received (w c) @ [d]"
  by (simp add: Write_def w_Write_def io_Write_def)

lemma Write_answer [simp]: "answer (w (snd (Write d c))) = answer (w c)"
  by (simp add: Write_def w_Write_def io_Write_def)

lemma Write_result: "fst (Write d c) = answer (w c) (received (w c)) d"
  by (simp add: Write_def w_Write_def io_Write_def)

lemma Writes_buf: "buf (Writes ds c) = buf c @ concat ds"
  by (induction ds arbitrary: c) simp_all

lemma Writes_received: "received (w (Writes ds c)) = received (w c) @ ds"
  by (induction ds arbitrary: c) simp_all

lemma copyBuffer_tee:
  "\<exists>x. buf (cp_dst (copyBuffer c rs fin now n)) = buf c @ x \<and>
       concat (received (w (cp_dst (copyBuffer c rs fin now n)))) = concat (received (w c)) @ x"
proof (induction rs arbitrary: c now n)
  case Nil
  show ?case by (cases fin) simp
next
  case (Cons r rs)
  obtain t d where r: "r = (t, d)" by (cases r)
  obtain nw0 ew0 c' where W: "Write d c = ((nw0, ew0), c')"
    by (metis surj_pair)
  have b: "buf c' = buf c @ d"
    using Write_buf [of d c] W by simp
  have rc: "concat (received (w c')) = concat (received (w c)) @ d"
    using Write_received [of d c] W by simp
  from Cons.IH [of c' "max now t"] b rc
  have step: "\<And>k. \<exists>x. buf (cp_dst (copyBuffer c' rs fin (max now t) k)) = buf c @ x \<and>
       concat (received (w (cp_dst (copyBuffer c' rs fin (max now t) k)))) = concat (received (w c)) @ x"
    by (metis append.assoc)
  show ?case
    using step Cons.IH [of c "max now t" n]
    by (simp add: r W b rc Let_def)
qed

section \<open>Unfolding a run\<close>

lemmas world_defs = world_of_def world_reaped_def world_no_pipes_def world_unkillable_def
  console_def second_def
  hello_def sleeper_def sleeper_no_stderr_def failing_def failing_with_grandchild_def

lemmas run_defs = CmdRun_def supervise_def select_race_def finish_def Command_def
  default_timeout_def pipe_end_def io_Copy_def NewCapturingPassThroughWriter_def TrimRight_def
  After_def Second_def done_at_def timer_wins_def Write_def w_Write_def buf_Write_def io_Write_def

lemma CmdRun_Inl:
  "Start os (Command os scriptPath) = Inl e \<Longrightarrow>
   CmdRun os scriptPath timeout =
     \<lparr>ret = Returned (Some e),
      trace = [Call_StdoutPipe, Call_StderrPipe, Call_Start (Command os scriptPath)],
      returned_at = 0, stdout_drain = None, stderr_drain = None\<rparr>"
  by (simp add: CmdRun_def)

lemma CmdRun_Inr:
  "Start os (Command os scriptPath) = Inr p \<Longrightarrow>
   CmdRun os scriptPath timeout =
     supervise os scriptPath (default_timeout timeout) p
       [Call_StdoutPipe, Call_StderrPipe, Call_Start (Command os scriptPath)]"
  by (simp add: CmdRun_def)

lemma supervise_Some:
  assumes "io_Copy (NewCapturingPassThroughWriter (os_Stdout os))
             (pipe_end (StdoutPipe os) (stdout_pipe p)) 0 = Some g"
      and "io_Copy (NewCapturingPassThroughWriter (os_Stderr os))
             (pipe_end (StderrPipe os) (stderr_pipe p)) 0 = Some m"
  shows "supervise os scriptPath timeout p tr0 =
     (case select_race os timeout p g m
             (tr0 @
              [Call_Printf
                 ''\<newline>Starting the exection of the script: \<newline>%s with timeout: %ds\<newline>''
                 [String_arg scriptPath, Int_arg timeout],
               Go_Copy_Wait True, Call_Copy True, Ret_Copy (cp_at m)]) of
        (r, tr2, t) \<Rightarrow>
          \<lparr>ret = r, trace = tr2, returned_at = t,
           stdout_drain = Some g, stderr_drain = Some m\<rparr>)"
proof -
  have "pipe_end (StdoutPipe os) (stdout_pipe p) \<noteq> None"
    using assms(1) by (auto simp: io_Copy_def split: option.splits)
  moreover have "pipe_end (StderrPipe os) (stderr_pipe p) \<noteq> None"
    using assms(2) by (auto simp: io_Copy_def split: option.splits)
  ultimately show ?thesis
    using assms by (simp add: supervise_def Let_def)
qed

lemma supervise_None:
  assumes "notnil (StdoutPipe os) \<or> notnil (StderrPipe os)"
  shows "supervise os scriptPath timeout p tr0 =
     \<lparr>ret = Panicked,
      trace = tr0 @
        [Call_Printf
           ''\<newline>Starting the exection of the script: \<newline>%s with timeout: %ds\<newline>''
           [String_arg scriptPath, Int_arg timeout],
         Go_Copy_Wait (\<not> notnil (StdoutPipe os)), Call_Copy (\<not> notnil (StderrPipe os))],
      returned_at = 0, stdout_drain = None, stderr_drain = None\<rparr>"
  using assms
  by (cases "StdoutPipe os"; cases "StderrPipe os")
     (simp_all add: supervise_def pipe_end_def io_Copy_def Let_def)

lemma io_Copy_cases:
  "(\<exists>g m. io_Copy (NewCapturingPassThroughWriter (os_Stdout os))
             (pipe_end (StdoutPipe os) (stdout_pipe p)) 0 = Some g \<and>
          io_Copy (NewCapturingPassThroughWriter (os_Stderr os))
             (pipe_end (StderrPipe os) (stderr_pipe p)) 0 = Some m \<and>
          StdoutPipe os = None \<and> StderrPipe os = None) \<or>
   notnil (StdoutPipe os) \<or> notnil (StderrPipe os)"
  by (cases "StdoutPipe os"; cases "StderrPipe os") (simp_all add: pipe_end_def io_Copy_def)

lemma select_race_timer:
  assumes "timer_wins os (cp_at m) (After (cp_at m) timeout) (done_at g p)"
  shows "select_race os timeout p g m tr0 =
     (case Getpgid os (Pid p) of
        Inl e \<Rightarrow>
          (Returned (Some e),
           tr0 @ [Select (cp_at m), Recv_After (After (cp_at m) timeout), Call_Getpgid (Pid p)],
           After (cp_at m) timeout)
      | Inr pgid \<Rightarrow>
          (case Kill os (- pgid) 15 of
             Some e \<Rightarrow>
               (Returned (Some e),
                tr0 @ [Select (cp_at m), Recv_After (After (cp_at m) timeout),
                       Call_Getpgid (Pid p), Call_Kill (- pgid) 15],
                After (cp_at m) timeout)
           | None \<Rightarrow>
               (if notnil (if cp_at g \<le> After (cp_at m) timeout then cp_err g else None) \<or>
                   notnil (cp_err m)
                then (Returned (Some (Errorf ''failed to capture stdout or stderr'' [])),
                      tr0 @ [Select (cp_at m), Recv_After (After (cp_at m) timeout),
                             Call_Getpgid (Pid p), Call_Kill (- pgid) 15,
                             Call_Printf ''Process killed as timeout(%d) reached\<newline>''
                               [Int_arg timeout]],
                      After (cp_at m) timeout)
                else (Returned None,
                      tr0 @ [Select (cp_at m), Recv_After (After (cp_at m) timeout),
                             Call_Getpgid (Pid p), Call_Kill (- pgid) 15,
                             Call_Printf ''Process killed as timeout(%d) reached\<newline>''
                               [Int_arg timeout],
                             Call_Printf ''Execution of the script finished successfully\<newline>'' []],
                      After (cp_at m) timeout))))"
  using assms
  by (simp add: select_race_def finish_def Let_def split: sum.splits option.splits)

lemma select_race_done:
  assumes "\<not> timer_wins os (cp_at m) (After (cp_at m) timeout) (done_at g p)"
  shows "select_race os timeout p g m tr0 =
     (case Wait p of
        Some e \<Rightarrow>
          (Returned (Some (Errorf ''process finished with error = %v'' [e])),
           tr0 @ [Select (cp_at m), Recv_done (max (cp_at m) (done_at g p)) (Wait p)],
           max (cp_at m) (done_at g p))
      | None \<Rightarrow>
          (if notnil (cp_err g) \<or> notnil (cp_err m)
           then (Returned (Some (Errorf ''failed to capture stdout or stderr'' [])),
                 tr0 @ [Select (cp_at m), Recv_done (max (cp_at m) (done_at g p)) (Wait p)],
                 max (cp_at m) (done_at g p))
           else (Returned None,
                 tr0 @ [Select (cp_at m), Recv_done (max (cp_at m) (done_at g p)) (Wait p),
                        Call_Printf ''Execution of the script finished successfully\<newline>'' []],
                 max (cp_at m) (done_at g p))))"
  using assms
  by (simp add: select_race_def finish_def Let_def split: sum.splits option.splits)

lemma CmdRun_trace_start:
  "take 3 (trace (CmdRun os scriptPath timeout)) =
     [Call_StdoutPipe, Call_StderrPipe, Call_Start (Command os scriptPath)]"
proof (cases "Start os (Command os scriptPath)")
  case (Inl e)
  then show ?thesis by (simp add: CmdRun_Inl)
next
  case (Inr p)
  from io_Copy_cases [of os p] show ?thesis
  proof (elim disjE exE conjE)
    fix g m
    assume g: "io_Copy (NewCapturingPassThroughWriter (os_Stdout os))
             (pipe_end (StdoutPipe os) (stdout_pipe p)) 0 = Some g"
      and m: "io_Copy (NewCapturingPassThroughWriter (os_Stderr os))
             (pipe_end (StderrPipe os) (stderr_pipe p)) 0 = Some m"
    show ?thesis
      by (cases "timer_wins os (cp_at m) (After (cp_at m) (default_timeout timeout)) (done_at g p)")
         (simp_all add: CmdRun_Inr [OF Inr] supervise_Some [OF g m] select_race_timer select_race_done
            split: sum.splits option.splits)
  next
    assume "notnil (StdoutPipe os)"
    then show ?thesis by (simp add: CmdRun_Inr [OF Inr] supervise_None)
  next
    assume "notnil (StderrPipe os)"
    then show ?thesis by (simp add: CmdRun_Inr [OF Inr] supervise_None)
  qed
qed

text \<open>What a run that took the timer's case looks like.\<close>

lemma deadline_fired_run:
  assumes st: "Start os (Command os scriptPath) = Inr p"
      and fired: "deadline_fired (CmdRun os scriptPath timeout)"
  shows "\<exists>g m tr0. 
           timer_wins os (cp_at m) (After (cp_at m) (default_timeout timeout)) (done_at g p) \<and>
           CmdRun os scriptPath timeout =
             (case select_race os (default_timeout timeout) p g m tr0 of
                (r, tr2, t) \<Rightarrow>
                  \<lparr>ret = r, trace = tr2, returned_at = t,
                   stdout_drain = Some g, stderr_drain = Some m\<rparr>) \<and>
           \<not> list_ex is_Recv_After tr0 \<and> filter is_Call_Kill tr0 = [] \<and> Call_Getpgid (Pid p) \<notin> set tr0"
  using io_Copy_cases [of os p]
proof (elim disjE exE conjE)
  fix g m
  assume g: "io_Copy (NewCapturingPassThroughWriter (os_Stdout os))
           (pipe_end (StdoutPipe os) (stdout_pipe p)) 0 = Some g"
    and m: "io_Copy (NewCapturingPassThroughWriter (os_Stderr os))
           (pipe_end (StderrPipe os) (stderr_pipe p)) 0 = Some m"
  have win: "timer_wins os (cp_at m) (After (cp_at m) (default_timeout timeout)) (done_at g p)"
  proof (rule ccontr)
    assume "\<not> ?thesis"
    then have "\<not> deadline_fired (CmdRun os scriptPath timeout)"
      by (simp add: deadline_fired_def CmdRun_Inr [OF st] supervise_Some [OF g m] select_race_done
            split: option.splits)
    with fired show False by simp
  qed
  show ?thesis
    apply (rule exI [of _ g], rule exI [of _ m])
    apply (rule exI [of _ "[Call_StdoutPipe, Call_StderrPipe, Call_Start (Command os scriptPath)] @
              [Call_Printf
                 ''\<newline>Starting the exection of the script: \<newline>%s with timeout: %ds\<newline>''
                 [String_arg scriptPath, Int_arg (default_timeout timeout)],
               Go_Copy_Wait True, Call_Copy True, Ret_Copy (cp_at m)]"])
    using win by (simp add: CmdRun_Inr [OF st] supervise_Some [OF g m])
next
  assume "notnil (StdoutPipe os)"
  then have "\<not> deadline_fired (CmdRun os scriptPath timeout)"
    by (simp add: deadline_fired_def CmdRun_Inr [OF st] supervise_None)
  with fired show ?thesis by simp
next
  assume "notnil (StderrPipe os)"
  then have "\<not> deadline_fired (CmdRun os scriptPath timeout)"
    by (simp add: deadline_fired_def CmdRun_Inr [OF st] supervise_None)
  with fired show ?thesis by simp
qed

lemma exit_received_run:
  assumes st: "Start os (Command os scriptPath) = Inr p"
      and ex: "exit_received (CmdRun os scriptPath timeout)"
  shows "\<exists>g m tr0.
           \<not> timer_wins os (cp_at m) (After (cp_at m) (default_timeout timeout)) (done_at g p) \<and>
           io_Copy (NewCapturingPassThroughWriter (os_Stdout os))
             (pipe_end (StdoutPipe os) (stdout_pipe p)) 0 = Some g \<and>
           io_Copy (NewCapturingPassThroughWriter (os_Stderr os))
             (pipe_end (StderrPipe os) (stderr_pipe p)) 0 = Some m \<and>
           CmdRun os scriptPath timeout =
             (case select_race os (default_timeout timeout) p g m tr0 of
                (r, tr2, t) \<Rightarrow>
                  \<lparr>ret = r, trace = tr2, returned_at = t,
                   stdout_drain = Some g, stderr_drain = Some m\<rparr>)"
  using io_Copy_cases [of os p]
proof (elim disjE exE conjE)
  fix g m
  assume g: "io_Copy (NewCapturingPassThroughWriter (os_Stdout os))
           (pipe_end (StdoutPipe os) (stdout_pipe p)) 0 = Some g"
    and m: "io_Copy (NewCapturingPassThroughWriter (os_Stderr os))
           (pipe_end (StderrPipe os) (stderr_pipe p)) 0 = Some m"
  have lose: "\<not> timer_wins os (cp_at m) (After (cp_at m) (default_timeout timeout)) (done_at g p)"
  proof
    assume "timer_wins os (cp_at m) (After (cp_at m) (default_timeout timeout)) (done_at g p)"
    then have "\<not> exit_received (CmdRun os scriptPath timeout)"
      by (simp add: exit_received_def CmdRun_Inr [OF st] supervise_Some [OF g m] select_race_timer
            split: option.splits sum.splits)
    with ex show False by simp
  qed
  show ?thesis
    using lose g m CmdRun_Inr [OF st, of timeout] supervise_Some [OF g m] by metis
next
  assume "notnil (StdoutPipe os)"
  then have "\<not> exit_received (CmdRun os scriptPath timeout)"
    by (simp add: exit_received_def CmdRun_Inr [OF st] supervise_None)
  with ex show ?thesis by simp
next
  assume "notnil (StderrPipe os)"
  then have "\<not> exit_received (CmdRun os scriptPath timeout)"
    by (simp add: exit_received_def CmdRun_Inr [OF st] supervise_None)
  with ex show ?thesis by simp
qed

lemma io_Copy_tee:
  assumes "io_Copy (NewCapturingPassThroughWriter dst) src 0 = Some g"
  shows "concat (received (w (cp_dst g))) = concat (received dst) @ Bytes (cp_dst g)"
proof (cases src)
  case None
  then show ?thesis using assms by (simp add: io_Copy_def)
next
  case (Some r)
  then have g: "g = copyBuffer (NewCapturingPassThroughWriter dst) (reads r)
                        (closed_at r, closed_with r) 0 0"
    using assms by (simp add: io_Copy_def)
  from copyBuffer_tee [of "NewCapturingPassThroughWriter dst" "reads r" "(closed_at r, closed_with r)" 0 0]
  show ?thesis
    by (auto simp: g NewCapturingPassThroughWriter_def Bytes_def)
qed

lemma TrimRight_newlines:
  "(\<exists>k. s = TrimRight s ''\<newline>'' @ replicate k CHR ''\<newline>'') \<and>
   \<not> (\<exists>x. TrimRight s ''\<newline>'' = x @ ''\<newline>'')"
proof
  let ?P = "\<lambda>c. c \<in> set ''\<newline>''"
  have "takeWhile ?P (rev s) = replicate (length (takeWhile ?P (rev s))) CHR ''\<newline>''"
    by (rule replicate_length_same [symmetric]) (auto dest: set_takeWhileD)
  then have "rev (takeWhile ?P (rev s)) = replicate (length (takeWhile ?P (rev s))) CHR ''\<newline>''"
    by (metis rev_replicate)
  moreover have "s = rev (dropWhile ?P (rev s)) @ rev (takeWhile ?P (rev s))"
    by (metis rev_append rev_rev_ident takeWhile_dropWhile_id)
  ultimately show "\<exists>k. s = TrimRight s ''\<newline>'' @ replicate k CHR ''\<newline>''"
    unfolding TrimRight_def by metis
next
  show "\<not> (\<exists>x. TrimRight s ''\<newline>'' = x @ ''\<newline>'')"
  proof
    assume "\<exists>x. TrimRight s ''\<newline>'' = x @ ''\<newline>''"
    then obtain x where "rev (dropWhile (\<lambda>c. c \<in> set ''\<newline>'') (rev s)) = x @ ''\<newline>''"
      unfolding TrimRight_def by blast
    then have "dropWhile (\<lambda>c. c \<in> set ''\<newline>'') (rev s) = CHR ''\<newline>'' # rev x"
      by (metis rev_append rev_rev_ident rev_singleton_conv append_Cons append_Nil)
    then show False
      using hd_dropWhile [of "\<lambda>c. c \<in> set ''\<newline>''" "rev s"] by simp
  qed
qed

section \<open>The claims\<close>

text \<open>
  C2. After any finite sequence of \<open>Write\<close> calls on a \<open>CapturingPassThroughWriter\<close>,
  \<open>Bytes()\<close> is the concatenation of the slices written, in call order, nothing
  dropped, reordered or repeated; and the destination writer has been handed the same
  slices in the same order. Stated for a new writer, and for a writer \<open>c\<close> in any state
  (its earlier bytes come first).
\<close>

theorem Writes_fidelity:
  "Bytes (Writes ds (NewCapturingPassThroughWriter dst)) = concat ds \<and>
   received (w (Writes ds (NewCapturingPassThroughWriter dst))) = received dst @ ds \<and>
   Bytes (Writes ds c) = Bytes c @ concat ds \<and>
   received (w (Writes ds c)) = received (w c) @ ds"
  by (simp add: Bytes_def Writes_buf Writes_received NewCapturingPassThroughWriter_def)

text \<open>
  C7. \<open>Write(d)\<close> first appends \<open>d\<close> to the private buffer and then forwards \<open>d\<close> to
  the destination; it returns the count and the error the destination reports; and
  whatever the destination reports, also an error, \<open>d\<close> is in the private buffer in
  full.
\<close>

theorem Write_captures_then_forwards:
  "Write d c = w_Write d (buf_Write d c) \<and>
   Bytes (buf_Write d c) = Bytes c @ d \<and>
   received (w (buf_Write d c)) = received (w c) \<and>
   fst (Write d c) = fst (io_Write d (w c)) \<and>
   fst (Write d c) = answer (w c) (received (w c)) d \<and>
   received (w (snd (Write d c))) = received (w c) @ [d] \<and>
   Bytes (snd (Write d c)) = Bytes c @ d"
  by (simp add: Bytes_def Write_result) (simp add: Write_def io_Write_def)

text \<open>
  C5. For every script path, \<open>CmdRun\<close> with a timeout that is zero or negative behaves
  as \<open>CmdRun\<close> with the timeout 3: the two runs are the same run.
\<close>

theorem CmdRun_default_timeout:
  "timeout \<le> 0 \<Longrightarrow> CmdRun os scriptPath timeout = CmdRun os scriptPath 3"
  by (simp add: CmdRun_def default_timeout_def)

text \<open>C5 at the timeout \<open>-5\<close>.\<close>

theorem CmdRun_default_timeout_witness:
  "(- 5 :: int) \<le> 0 \<and>
   CmdRun (world_of hello) ''/opt/run.sh'' (- 5) = CmdRun (world_of hello) ''/opt/run.sh'' 3 \<and>
   ret (CmdRun (world_of hello) ''/opt/run.sh'' (- 5)) = Returned None"
  using CmdRun_default_timeout [of "- 5" "world_of hello" "''/opt/run.sh''"]
  by (simp add: run_defs world_defs)

text \<open>
  C4. When the operating system cannot create the process, \<open>CmdRun\<close> returns the
  error of \<open>cmd.Start\<close> at once: the main goroutine has called nothing that blocks (no
  copy, no \<open>select\<close>, no timer), no time has passed since \<open>cmd.Start\<close> returned, and
  the run is the same whatever the timeout.
\<close>

theorem CmdRun_launch_error:
  assumes "Start os (Command os scriptPath) = Inl e"
  shows "ret (CmdRun os scriptPath timeout) = Returned (Some e) \<and>
         trace (CmdRun os scriptPath timeout) =
           [Call_StdoutPipe, Call_StderrPipe, Call_Start (Command os scriptPath)] \<and>
         returned_at (CmdRun os scriptPath timeout) = 0 \<and>
         CmdRun os scriptPath timeout = CmdRun os scriptPath timeout'"
  using assms by (simp add: CmdRun_Inl)

text \<open>C4 at a script path that does not exist.\<close>

theorem CmdRun_launch_error_witness:
  "Start (world_of hello) (Command (world_of hello) ''/nonexistent/script.sh'') =
     Inl (OSError ''fork/exec: no such file or directory'') \<and>
   ret (CmdRun (world_of hello) ''/nonexistent/script.sh'' 3) =
     Returned (Some (OSError ''fork/exec: no such file or directory'')) \<and>
   returned_at (CmdRun (world_of hello) ''/nonexistent/script.sh'' 3) = 0"
  using CmdRun_launch_error [of "world_of hello" "''/nonexistent/script.sh''"
      "OSError ''fork/exec: no such file or directory''" 3 3]
  by (simp add: world_of_def Command_def TrimRight_def)

text \<open>
  C1 as stated fails. The claim gives a run whose deadline fired and whose signal was
  delivered a result of its own, different from that of a successful completion. In the
  first run below the script would run for ten seconds, the timer fires after one, the
  group takes the signal, and \<open>CmdRun\<close> returns \<open>nil\<close>; in the second the script
  exits with status 0 before the deadline, and \<open>CmdRun\<close> returns \<open>nil\<close> as well.
\<close>

theorem CmdRun_timeout_returns_nil:
  "deadline_fired (CmdRun (world_of sleeper_no_stderr) ''/opt/run.sh'' 1) \<and>
   returned_at (CmdRun (world_of sleeper_no_stderr) ''/opt/run.sh'' 1) = second \<and>
   exits_at sleeper_no_stderr = 10 * second \<and>
   kills (CmdRun (world_of sleeper_no_stderr) ''/opt/run.sh'' 1) = [Call_Kill (- 4242) 15] \<and>
   Kill (world_of sleeper_no_stderr) (- 4242) 15 = None \<and>
   ret (CmdRun (world_of sleeper_no_stderr) ''/opt/run.sh'' 1) = Returned None \<and>
   exit_received (CmdRun (world_of hello) ''/opt/run.sh'' 3) \<and>
   Wait hello = None \<and>
   ret (CmdRun (world_of hello) ''/opt/run.sh'' 3) = Returned None"
  by (simp add: run_defs world_defs deadline_fired_def exit_received_def kills_def)

text \<open>
  C1, amended. In every run in which the timer's case is taken: when
  \<open>syscall.Getpgid\<close> or \<open>syscall.Kill\<close> fails, \<open>CmdRun\<close> returns that error;
  otherwise it leaves through lines 90 to 95, as a completed run does, and returns
  \<open>nil\<close>, or the error \<open>failed to capture stdout or stderr\<close> when a drain has
  recorded an error by then. \<open>CmdRun\<close> returns one \<open>error\<close> value; there is no
  tag for a timeout.
\<close>

theorem CmdRun_deadline_result:
  assumes st: "Start os (Command os scriptPath) = Inr p"
      and fired: "deadline_fired (CmdRun os scriptPath timeout)"
  shows "\<exists>g m. stdout_drain (CmdRun os scriptPath timeout) = Some g \<and>
               stderr_drain (CmdRun os scriptPath timeout) = Some m \<and>
               ret (CmdRun os scriptPath timeout) =
                 Returned
                   (case Getpgid os (Pid p) of
                      Inl e \<Rightarrow> Some e
                    | Inr pgid \<Rightarrow>
                        (case Kill os (- pgid) 15 of
                           Some e \<Rightarrow> Some e
                         | None \<Rightarrow>
                             if notnil (if cp_at g \<le> returned_at (CmdRun os scriptPath timeout)
                                        then cp_err g else None) \<or>
                                notnil (cp_err m)
                             then Some (Errorf ''failed to capture stdout or stderr'' [])
                             else None))"
proof -
  from deadline_fired_run [OF st fired] obtain g m tr0 where
    win: "timer_wins os (cp_at m) (After (cp_at m) (default_timeout timeout)) (done_at g p)" and
    run: "CmdRun os scriptPath timeout =
             (case select_race os (default_timeout timeout) p g m tr0 of
                (r, tr2, t) \<Rightarrow>
                  \<lparr>ret = r, trace = tr2, returned_at = t,
                   stdout_drain = Some g, stderr_drain = Some m\<rparr>)"
    by blast
  show ?thesis
    apply (rule exI [of _ g], rule exI [of _ m])
    by (simp add: run select_race_timer [OF win] split: sum.splits option.splits)
qed

text \<open>C1, amended, at a run whose deadline fires and whose signal is refused.\<close>

theorem CmdRun_deadline_result_witness:
  "Start (world_unkillable sleeper_no_stderr)
     (Command (world_unkillable sleeper_no_stderr) ''/opt/run.sh'') = Inr sleeper_no_stderr \<and>
   deadline_fired (CmdRun (world_unkillable sleeper_no_stderr) ''/opt/run.sh'' 1) \<and>
   ret (CmdRun (world_unkillable sleeper_no_stderr) ''/opt/run.sh'' 1) =
     Returned (Some (OSError ''operation not permitted''))"
proof -
  have st: "Start (world_unkillable sleeper_no_stderr)
     (Command (world_unkillable sleeper_no_stderr) ''/opt/run.sh'') = Inr sleeper_no_stderr"
    by (simp add: world_defs Command_def TrimRight_def)
  have fired: "deadline_fired (CmdRun (world_unkillable sleeper_no_stderr) ''/opt/run.sh'' 1)"
    by (simp add: run_defs world_defs deadline_fired_def)
  from CmdRun_deadline_result [OF st fired] st fired show ?thesis
    by (auto simp: world_defs)
qed

text \<open>
  C3 at a script that sleeps for ten seconds with both pipes open, run with a timeout
  of one second. The claim has the \<open>select\<close> entered without waiting for either
  drain. The main goroutine copies the standard error to its end first (line 69), so it
  reaches the \<open>select\<close> after ten seconds, when the process has exited; the timer,
  which would have fired after one second, is created only then; the \<open>done\<close> case is
  taken, nothing is signalled, and \<open>CmdRun\<close> returns \<open>nil\<close> after ten seconds.
\<close>

theorem CmdRun_select_waits_for_stderr:
  "trace (CmdRun (world_of sleeper) ''/opt/run.sh'' 1) =
     [Call_StdoutPipe, Call_StderrPipe,
      Call_Start (Command (world_of sleeper) ''/opt/run.sh''),
      Call_Printf
        ''\<newline>Starting the exection of the script: \<newline>%s with timeout: %ds\<newline>''
        [String_arg ''/opt/run.sh'', Int_arg 1],
      Go_Copy_Wait True, Call_Copy True, Ret_Copy (10 * second),
      Select (10 * second), Recv_done (10 * second) None,
      Call_Printf ''Execution of the script finished successfully\<newline>'' []] \<and>
   After 0 1 = second \<and>
   exits_at sleeper = 10 * second \<and>
   kills (CmdRun (world_of sleeper) ''/opt/run.sh'' 1) = [] \<and>
   returned_at (CmdRun (world_of sleeper) ''/opt/run.sh'' 1) = 10 * second \<and>
   ret (CmdRun (world_of sleeper) ''/opt/run.sh'' 1) = Returned None"
  by (simp add: run_defs world_defs kills_def)

text \<open>
  C6 as stated fails. The claim has leading and trailing white space stripped from the
  script path. A path with a blank before and after it reaches \<open>cmd.Start\<close>
  unchanged, and the script that would start under the bare path does not start.
\<close>

theorem CmdRun_keeps_whitespace:
  "Path (Command (world_of hello) '' /opt/run.sh '') = '' /opt/run.sh '' \<and>
   ret (CmdRun (world_of hello) '' /opt/run.sh '' 3) =
     Returned (Some (OSError ''fork/exec: no such file or directory'')) \<and>
   ret (CmdRun (world_of hello) ''/opt/run.sh'' 3) = Returned None"
  by (simp add: run_defs world_defs)

text \<open>
  C6, amended. The path that \<open>cmd.Start\<close> is called with is the script path
  without its trailing newline characters: the script path is that path followed by
  newlines only, and that path does not end in a newline. Nothing else is removed:
  leading white space and trailing blanks or tabs stay in the path.
\<close>

theorem Command_trims_trailing_newlines:
  "(\<exists>k. scriptPath = Path (Command os scriptPath) @ replicate k CHR ''\<newline>'') \<and>
   \<not> (\<exists>x. Path (Command os scriptPath) = x @ ''\<newline>'') \<and>
   take 3 (trace (CmdRun os scriptPath timeout)) =
     [Call_StdoutPipe, Call_StderrPipe, Call_Start (Command os scriptPath)]"
  using TrimRight_newlines [of scriptPath] CmdRun_trace_start [of os scriptPath timeout]
  by (simp add: Command_def)

text \<open>C6, amended, at a path followed by two newlines.\<close>

theorem Command_trims_trailing_newlines_witness:
  "Path (Command (world_of hello) (''/opt/run.sh'' @ replicate 2 CHR ''\<newline>'')) = ''/opt/run.sh'' \<and>
   ret (CmdRun (world_of hello) (''/opt/run.sh'' @ replicate 2 CHR ''\<newline>'') 3) = Returned None"
  using Command_trims_trailing_newlines [of "''/opt/run.sh'' @ replicate 2 CHR ''\<newline>''" "world_of hello" 3]
  by (simp add: run_defs world_defs numeral_2_eq_2)

text \<open>
  C8 as stated fails. The claim has every run whose deadline fires send the signal to
  the group. In the run below the timer fires, \<open>syscall.Getpgid\<close> fails (the process
  is gone), and \<open>CmdRun\<close> returns that error without any \<open>syscall.Kill\<close>.
\<close>

theorem CmdRun_deadline_no_signal:
  "deadline_fired (CmdRun (world_reaped sleeper_no_stderr) ''/opt/run.sh'' 1) \<and>
   kills (CmdRun (world_reaped sleeper_no_stderr) ''/opt/run.sh'' 1) = [] \<and>
   ret (CmdRun (world_reaped sleeper_no_stderr) ''/opt/run.sh'' 1) =
     Returned (Some (OSError ''no such process''))"
  by (simp add: run_defs world_defs deadline_fired_def kills_def)

text \<open>
  C8, amended. The child is started with \<open>Setpgid\<close> set. In every run in which the
  timer's case is taken, \<open>CmdRun\<close> calls \<open>syscall.Getpgid\<close> on the child's process
  id; when that fails it returns the error and signals nothing; otherwise its one and
  only \<open>syscall.Kill\<close> call sends signal 15 to the negated group id, that is to the
  whole group and not to the child alone.
\<close>

theorem CmdRun_deadline_signals_group:
  assumes st: "Start os (Command os scriptPath) = Inr p"
      and fired: "deadline_fired (CmdRun os scriptPath timeout)"
  shows "Setpgid (Command os scriptPath) \<and>
         take 3 (trace (CmdRun os scriptPath timeout)) =
           [Call_StdoutPipe, Call_StderrPipe, Call_Start (Command os scriptPath)] \<and>
         Call_Getpgid (Pid p) \<in> set (trace (CmdRun os scriptPath timeout)) \<and>
         kills (CmdRun os scriptPath timeout) =
           (case Getpgid os (Pid p) of
              Inl e \<Rightarrow> []
            | Inr pgid \<Rightarrow> [Call_Kill (- pgid) 15]) \<and>
         ret (CmdRun os scriptPath timeout) =
           (case Getpgid os (Pid p) of
              Inl e \<Rightarrow> Returned (Some e)
            | Inr pgid \<Rightarrow> ret (CmdRun os scriptPath timeout))"
proof -
  from deadline_fired_run [OF st fired] obtain g m tr0 where
    win: "timer_wins os (cp_at m) (After (cp_at m) (default_timeout timeout)) (done_at g p)" and
    run: "CmdRun os scriptPath timeout =
             (case select_race os (default_timeout timeout) p g m tr0 of
                (r, tr2, t) \<Rightarrow>
                  \<lparr>ret = r, trace = tr2, returned_at = t,
                   stdout_drain = Some g, stderr_drain = Some m\<rparr>)" and
    tr0: "filter is_Call_Kill tr0 = []"
    by blast
  have a: "Setpgid (Command os scriptPath)" by (simp add: Command_def)
  have b: "Call_Getpgid (Pid p) \<in> set (trace (CmdRun os scriptPath timeout))"
    by (simp add: run select_race_timer [OF win] split: sum.splits option.splits)
  have c: "kills (CmdRun os scriptPath timeout) =
           (case Getpgid os (Pid p) of
              Inl e \<Rightarrow> []
            | Inr pgid \<Rightarrow> [Call_Kill (- pgid) 15])"
    by (simp add: kills_def run select_race_timer [OF win] tr0 split: sum.splits option.splits)
  have d: "ret (CmdRun os scriptPath timeout) =
           (case Getpgid os (Pid p) of
              Inl e \<Rightarrow> Returned (Some e)
            | Inr pgid \<Rightarrow> ret (CmdRun os scriptPath timeout))"
    by (simp add: run select_race_timer [OF win] split: sum.splits option.splits)
  show ?thesis using a b c d CmdRun_trace_start by blast
qed

text \<open>C8, amended, at a run whose deadline fires and whose group is found.\<close>

theorem CmdRun_deadline_signals_group_witness:
  "Start (world_of sleeper_no_stderr) (Command (world_of sleeper_no_stderr) ''/opt/run.sh'') =
     Inr sleeper_no_stderr \<and>
   deadline_fired (CmdRun (world_of sleeper_no_stderr) ''/opt/run.sh'' 1) \<and>
   Call_Getpgid 4242 \<in> set (trace (CmdRun (world_of sleeper_no_stderr) ''/opt/run.sh'' 1)) \<and>
   kills (CmdRun (world_of sleeper_no_stderr) ''/opt/run.sh'' 1) = [Call_Kill (- 4242) 15]"
proof -
  have st: "Start (world_of sleeper_no_stderr) (Command (world_of sleeper_no_stderr) ''/opt/run.sh'') =
     Inr sleeper_no_stderr"
    by (simp add: world_defs Command_def TrimRight_def)
  have fired: "deadline_fired (CmdRun (world_of sleeper_no_stderr) ''/opt/run.sh'' 1)"
    by (simp add: run_defs world_defs deadline_fired_def)
  from CmdRun_deadline_signals_group [OF st fired] st fired show ?thesis
    by (simp add: world_defs)
qed

text \<open>
  C9 as stated fails, twice. The claim has the captured output returned to the caller
  beside the error. The first two runs below capture different bytes from the standard
  output of a script that exits with status 1, and return the same value: what
  \<open>CmdRun\<close> returns does not carry the capture. The claim also has every exit with a
  status other than 0 before the deadline end in that error. In the third run the script
  exits with status 1 at once, but a child of its own keeps the standard output open:
  the goroutine is still copying (line 65) and has not called \<open>cmd.Wait\<close> when the
  timer fires after one second, the timer's case is taken, and \<open>CmdRun\<close> returns
  \<open>nil\<close>.
\<close>

theorem CmdRun_returns_no_output:
  "exit_received (CmdRun (world_of (failing [111, 110, 101])) ''/opt/run.sh'' 3) \<and>
   exit_received (CmdRun (world_of (failing [116, 119, 111])) ''/opt/run.sh'' 3) \<and>
   captured (stdout_drain (CmdRun (world_of (failing [111, 110, 101])) ''/opt/run.sh'' 3)) =
     Some [111, 110, 101] \<and>
   captured (stdout_drain (CmdRun (world_of (failing [116, 119, 111])) ''/opt/run.sh'' 3)) =
     Some [116, 119, 111] \<and>
   ret (CmdRun (world_of (failing [111, 110, 101])) ''/opt/run.sh'' 3) =
     ret (CmdRun (world_of (failing [116, 119, 111])) ''/opt/run.sh'' 3) \<and>
   Start (world_of failing_with_grandchild)
     (Command (world_of failing_with_grandchild) ''/opt/run.sh'') = Inr failing_with_grandchild \<and>
   Wait failing_with_grandchild = Some (OSError ''exit status 1'') \<and>
   exits_at failing_with_grandchild = 0 \<and>
   After 0 1 = second \<and>
   deadline_fired (CmdRun (world_of failing_with_grandchild) ''/opt/run.sh'' 1) \<and>
   \<not> exit_received (CmdRun (world_of failing_with_grandchild) ''/opt/run.sh'' 1) \<and>
   returned_at (CmdRun (world_of failing_with_grandchild) ''/opt/run.sh'' 1) = second \<and>
   ret (CmdRun (world_of failing_with_grandchild) ''/opt/run.sh'' 1) = Returned None"
  by (simp add: run_defs world_defs exit_received_def deadline_fired_def captured_def Bytes_def)

text \<open>
  C9, amended. The condition is that the \<open>done\<close> case of the \<open>select\<close> is taken:
  the goroutine's report of the exit, sent after its copy of the standard output and
  \<open>cmd.Wait\<close> have returned, is received before the timer, which is created once the
  copy of the standard error has returned. In every run in which the process starts and
  that case is taken, with a status that \<open>cmd.Wait\<close> reports as the error \<open>e\<close>,
  \<open>CmdRun\<close> returns \<open>fmt.Errorf("process finished with error = %v", e)\<close> and
  nothing else. It returns when the two copies have returned and the process has exited,
  not later than the timer would fire, and every captured byte has been handed on to
  \<open>os.Stdout\<close> or \<open>os.Stderr\<close>; the captured bytes themselves stay inside
  \<open>CmdRun\<close>. A process that exits before the deadline while the \<open>select\<close> takes
  the timer's case is not covered.
\<close>

theorem CmdRun_exit_error:
  assumes st: "Start os (Command os scriptPath) = Inr p"
      and ex: "exit_received (CmdRun os scriptPath timeout)"
      and status: "Wait p = Some e"
  shows "ret (CmdRun os scriptPath timeout) =
           Returned (Some (Errorf ''process finished with error = %v'' [e])) \<and>
         (\<exists>g m. stdout_drain (CmdRun os scriptPath timeout) = Some g \<and>
                stderr_drain (CmdRun os scriptPath timeout) = Some m \<and>
                returned_at (CmdRun os scriptPath timeout) =
                  max (cp_at m) (max (cp_at g) (exits_at p)) \<and>
                returned_at (CmdRun os scriptPath timeout) \<le>
                  After (cp_at m) (default_timeout timeout) \<and>
                cp_at g \<le> returned_at (CmdRun os scriptPath timeout) \<and>
                cp_at m \<le> returned_at (CmdRun os scriptPath timeout) \<and>
                concat (received (w (cp_dst g))) =
                  concat (received (os_Stdout os)) @ Bytes (cp_dst g) \<and>
                concat (received (w (cp_dst m))) =
                  concat (received (os_Stderr os)) @ Bytes (cp_dst m))"
proof -
  from exit_received_run [OF st ex] obtain g m tr0 where
    lose: "\<not> timer_wins os (cp_at m) (After (cp_at m) (default_timeout timeout)) (done_at g p)" and
    g: "io_Copy (NewCapturingPassThroughWriter (os_Stdout os))
             (pipe_end (StdoutPipe os) (stdout_pipe p)) 0 = Some g" and
    m: "io_Copy (NewCapturingPassThroughWriter (os_Stderr os))
             (pipe_end (StderrPipe os) (stderr_pipe p)) 0 = Some m" and
    run: "CmdRun os scriptPath timeout =
             (case select_race os (default_timeout timeout) p g m tr0 of
                (r, tr2, t) \<Rightarrow>
                  \<lparr>ret = r, trace = tr2, returned_at = t,
                   stdout_drain = Some g, stderr_drain = Some m\<rparr>)"
    by blast
  have r: "ret (CmdRun os scriptPath timeout) =
           Returned (Some (Errorf ''process finished with error = %v'' [e]))"
    by (simp add: run select_race_done [OF lose] status)
  have at: "returned_at (CmdRun os scriptPath timeout) =
              max (cp_at m) (max (cp_at g) (exits_at p))"
    by (simp add: run select_race_done [OF lose] status done_at_def)
  have before: "returned_at (CmdRun os scriptPath timeout) \<le>
                  After (cp_at m) (default_timeout timeout)"
    using lose unfolding at by (simp add: timer_wins_def done_at_def not_less)
  have t: "cp_at g \<le> returned_at (CmdRun os scriptPath timeout) \<and>
           cp_at m \<le> returned_at (CmdRun os scriptPath timeout)"
    unfolding at by simp
  have d: "stdout_drain (CmdRun os scriptPath timeout) = Some g \<and>
           stderr_drain (CmdRun os scriptPath timeout) = Some m"
    by (simp add: run select_race_done [OF lose] status)
  show ?thesis
    using r at before t d io_Copy_tee [OF g] io_Copy_tee [OF m] by blast
qed

text \<open>C9, amended, at a script that exits with status 1.\<close>

theorem CmdRun_exit_error_witness:
  "Start (world_of (failing [111, 110, 101]))
     (Command (world_of (failing [111, 110, 101])) ''/opt/run.sh'') = Inr (failing [111, 110, 101]) \<and>
   exit_received (CmdRun (world_of (failing [111, 110, 101])) ''/opt/run.sh'' 3) \<and>
   Wait (failing [111, 110, 101]) = Some (OSError ''exit status 1'') \<and>
   ret (CmdRun (world_of (failing [111, 110, 101])) ''/opt/run.sh'' 3) =
     Returned (Some (Errorf ''process finished with error = %v'' [OSError ''exit status 1'']))"
proof -
  have st: "Start (world_of (failing [111, 110, 101]))
     (Command (world_of (failing [111, 110, 101])) ''/opt/run.sh'') = Inr (failing [111, 110, 101])"
    by (simp add: world_defs Command_def TrimRight_def)
  have ex: "exit_received (CmdRun (world_of (failing [111, 110, 101])) ''/opt/run.sh'' 3)"
    by (simp add: run_defs world_defs exit_received_def)
  have status: "Wait (failing [111, 110, 101]) = Some (OSError ''exit status 1'')"
    by (simp add: failing_def)
  from CmdRun_exit_error [OF st ex status] st ex status show ?thesis
    by blast
qed

text \<open>
  C10. The errors of \<open>cmd.StdoutPipe\<close> and \<open>cmd.StderrPipe\<close> are dropped. When
  either call fails, \<open>cmd.Start\<close> is called all the same; a failure to start is the
  only error returned; and when the process starts, the two copies are started, each
  with a \<open>nil\<close> reader exactly when its pipe could not be created, and the run ends
  in the panic of the copy that reads from \<open>nil\<close>, not in an error returned to the
  caller.
\<close>

theorem CmdRun_pipe_errors_dropped:
  assumes "notnil (StdoutPipe os) \<or> notnil (StderrPipe os)"
  shows "take 3 (trace (CmdRun os scriptPath timeout)) =
           [Call_StdoutPipe, Call_StderrPipe, Call_Start (Command os scriptPath)] \<and>
         (case Start os (Command os scriptPath) of
            Inl e \<Rightarrow> ret (CmdRun os scriptPath timeout) = Returned (Some e)
          | Inr p \<Rightarrow>
              ret (CmdRun os scriptPath timeout) = Panicked \<and>
              drop 4 (trace (CmdRun os scriptPath timeout)) =
                [Go_Copy_Wait (\<not> notnil (StdoutPipe os)), Call_Copy (\<not> notnil (StderrPipe os))])"
proof -
  have "case Start os (Command os scriptPath) of
            Inl e \<Rightarrow> ret (CmdRun os scriptPath timeout) = Returned (Some e)
          | Inr p \<Rightarrow>
              ret (CmdRun os scriptPath timeout) = Panicked \<and>
              drop 4 (trace (CmdRun os scriptPath timeout)) =
                [Go_Copy_Wait (\<not> notnil (StdoutPipe os)), Call_Copy (\<not> notnil (StderrPipe os))]"
  proof (cases "Start os (Command os scriptPath)")
    case (Inl e)
    then show ?thesis by (simp add: CmdRun_Inl)
  next
    case (Inr p)
    show ?thesis
      unfolding Inr by (simp add: CmdRun_Inr [OF Inr] supervise_None [OF assms])
  qed
  then show ?thesis using CmdRun_trace_start by blast
qed

text \<open>C10 where neither pipe can be created: a script that starts, and one that does not.\<close>

theorem CmdRun_pipe_errors_dropped_witness:
  "notnil (StdoutPipe (world_no_pipes hello)) \<and>
   notnil (StderrPipe (world_no_pipes hello)) \<and>
   ret (CmdRun (world_no_pipes hello) ''/opt/run.sh'' 3) = Panicked \<and>
   drop 4 (trace (CmdRun (world_no_pipes hello) ''/opt/run.sh'' 3)) =
     [Go_Copy_Wait False, Call_Copy False] \<and>
   ret (CmdRun (world_no_pipes hello) ''/nonexistent/script.sh'' 3) =
     Returned (Some (OSError ''fork/exec: no such file or directory''))"
proof -
  have p: "notnil (StdoutPipe (world_no_pipes hello)) \<or> notnil (StderrPipe (world_no_pipes hello))"
    by (simp add: world_defs)
  from CmdRun_pipe_errors_dropped [OF p, of "''/opt/run.sh''" 3]
       CmdRun_pipe_errors_dropped [OF p, of "''/nonexistent/script.sh''" 3]
  show ?thesis
    by (simp add: world_defs Command_def TrimRight_def)
qed

end
